theory Spec2Isabelle
  imports
    Complex_Main
    "HOL-Library.Char_ord"
    "HOL-Library.List_Lexorder"
    "HOL-Library.Sublist"
begin

section \<open>Strings\<close>

text \<open>
  Strings are byte lists. \<open>lower\<close> is \<^verbatim>\<open>str.lower()\<close> and \<open>strip\<close> is
  \<^verbatim>\<open>str.strip()\<close> on ASCII text: the letters \<open>A\<close> to \<open>Z\<close> are mapped to \<open>a\<close> to \<open>z\<close>,
  every other byte is kept, and the characters stripped are the ASCII ones for which
  \<^verbatim>\<open>str.isspace()\<close> holds (codes 9 to 13 and 28 to 32). The test \<^verbatim>\<open>a in b\<close> on two strings
  is \<^const>\<open>sublist\<close>: \<open>a\<close> occurs in \<open>b\<close> as a contiguous block. Python compares strings
  lexicographically by code point, which is the order of \<open>char list\<close> here.
\<close>

definition lower_char :: "char \<Rightarrow> char" where
  "lower_char c =
     (case map_of (zip ''ABCDEFGHIJKLMNOPQRSTUVWXYZ'' ''abcdefghijklmnopqrstuvwxyz'') c of
        None \<Rightarrow> c
      | Some l \<Rightarrow> l)"

definition lower :: "string \<Rightarrow> string" where
  "lower s = map lower_char s"

definition is_space :: "char \<Rightarrow> bool" where
  "is_space c \<longleftrightarrow>
     c \<in> set [CHR 0x09, CHR 0x0A, CHR 0x0B, CHR 0x0C, CHR 0x0D,
               CHR 0x1C, CHR 0x1D, CHR 0x1E, CHR 0x1F, CHR 0x20]"

definition strip :: "string \<Rightarrow> string" where
  "strip s = rev (dropWhile is_space (rev (dropWhile is_space s)))"


section \<open>The table\<close>

text \<open>
  \<^verbatim>\<open>data\<close> is a pandas frame: a list of column names and a list of rows. A numeric cell
  is a \<open>rat option\<close>: \<open>None\<close> is \<^verbatim>\<open>NaN\<close> (a blank of the file), \<open>Some q\<close> a finite
  number, \<open>q\<close> being the exact value of the float. \<open>Risk_Category\<close> holds a label or
  \<^verbatim>\<open>NaN\<close>. A field whose column is not among \<open>columns\<close> is not part of the frame;
  \<open>County\<close> is always a column (the program reads it unconditionally), and its cells are
  strings.
\<close>

record county_row =
  County :: string
  Diabetes :: "rat option"
  Obesity :: "rat option"
  Uninsured :: "rat option"
  Median_Income :: "rat option"
  Risk_Score :: "rat option"
  Risk_Rank :: "rat option"
  PM25 :: "rat option"
  Risk_Percentile :: "rat option"
  Risk_Category :: "string option"

record frame =
  columns :: "string list"
  rows :: "county_row list"

datatype error = IndexError | KeyError | ValueError

text \<open>\<^verbatim>\<open>data["County"] = data["County"].astype(str).str.strip()\<close>\<close>

definition strip_county :: "frame \<Rightarrow> frame" where
  "strip_county d = d\<lparr>rows := map (\<lambda>r. r\<lparr>County := strip (County r)\<rparr>) (rows d)\<rparr>"

text \<open>\<^verbatim>\<open>Series.unique()\<close>: the distinct values in order of first appearance.\<close>

fun unique :: "'a list \<Rightarrow> 'a list" where
  "unique [] = []"
| "unique (x # xs) = x # unique (filter (\<lambda>y. y \<noteq> x) xs)"

text \<open>
  \<^verbatim>\<open>counties = sorted([c for c in data["County"].dropna().unique() if c.lower() != "texas"])\<close>
\<close>

definition counties :: "frame \<Rightarrow> string list" where
  "counties d = sort (filter (\<lambda>c. lower c \<noteq> ''texas'') (unique (map County (rows d))))"



text \<open>
  \<^verbatim>\<open>county_snapshot\<close>: \<^verbatim>\<open>data.loc[data["County"] == county].iloc[0].to_dict()\<close>. The
  selection keeps the rows with that name in table order; \<^verbatim>\<open>iloc[0]\<close> on an empty
  selection raises \<^verbatim>\<open>IndexError\<close>. The dictionary has the frame's columns as keys.
\<close>

definition iloc0 :: "'a list \<Rightarrow> error + 'a" where
  "iloc0 xs = (case xs of [] \<Rightarrow> Inl IndexError | x # _ \<Rightarrow> Inr x)"

definition county_snapshot :: "frame \<Rightarrow> string \<Rightarrow> error + (string list \<times> county_row)" where
  "county_snapshot d county =
     (case iloc0 (filter (\<lambda>r. County r = county) (rows d)) of
        Inl e \<Rightarrow> Inl e
      | Inr r \<Rightarrow> Inr (columns d, r))"

section \<open>Deriving the percentile and the category\<close>

text \<open>
  \<^verbatim>\<open>Series.rank(pct=True)\<close> with the defaults (\<^verbatim>\<open>method="average"\<close>,
  \<^verbatim>\<open>na_option="keep"\<close>, ascending): a \<^verbatim>\<open>NaN\<close> keeps \<^verbatim>\<open>NaN\<close>; a number gets the mean
  of the 1-based positions its ties take in the sorted order of the numbers of the column
  (with \<open>l\<close> numbers below it and \<open>e\<close> equal to it, itself among them, the positions
  \<open>l + 1\<close> to \<open>l + e\<close>), divided by how many numbers the column has. The arithmetic is the
  exact one of the rationals.
\<close>

definition valid :: "rat option list \<Rightarrow> rat list" where
  "valid xs = concat (map (\<lambda>x. case x of None \<Rightarrow> [] | Some v \<Rightarrow> [v]) xs)"

definition rank_average :: "rat option list \<Rightarrow> rat \<Rightarrow> rat" where
  "rank_average xs v =
     of_nat (length (filter (\<lambda>x. x < v) (valid xs))) +
     (of_nat (length (filter (\<lambda>x. x = v) (valid xs))) + 1) / 2"

definition rank_pct :: "rat option list \<Rightarrow> rat option \<Rightarrow> rat option" where
  "rank_pct xs x =
     (case x of None \<Rightarrow> None
      | Some v \<Rightarrow> Some (rank_average xs v / of_nat (length (valid xs))))"

text \<open>
  \<^verbatim>\<open>data.merge(right, on="County", how="left")\<close>: every row of \<^verbatim>\<open>data\<close>, in order,
  once for each row of \<open>right\<close> with the same name (in the order of \<open>right\<close>), and once
  with \<^verbatim>\<open>NaN\<close> when no row of \<open>right\<close> has it.
\<close>

definition merge_left :: "county_row list \<Rightarrow> (string \<times> rat option) list \<Rightarrow> county_row list" where
  "merge_left left right =
     concat (map (\<lambda>r.
       (case filter (\<lambda>m. fst m = County r) right of
          [] \<Rightarrow> [r\<lparr>Risk_Percentile := None\<rparr>]
        | ms \<Rightarrow> map (\<lambda>m. r\<lparr>Risk_Percentile := snd m\<rparr>) ms)) left)"

text \<open>
  Lines 34 to 43 of the program. \<open>tmp_counties\<close> is the frame without the statewide rows;
  \<open>ranked\<close> is its two columns \<open>County\<close> and \<open>Risk_Percentile\<close>, the latter being
  \<^verbatim>\<open>tmp_counties["Risk_Score"].rank(pct=True) * 100\<close>.
\<close>

definition tmp_counties :: "frame \<Rightarrow> county_row list" where
  "tmp_counties d = filter (\<lambda>r. lower (County r) \<noteq> ''texas'') (rows d)"

definition ranked :: "frame \<Rightarrow> (string \<times> rat option) list" where
  "ranked d =
     map (\<lambda>r. (County r,
            map_option (\<lambda>p. p * 100) (rank_pct (map Risk_Score (tmp_counties d)) (Risk_Score r))))
       (tmp_counties d)"

definition derive_percentile :: "frame \<Rightarrow> frame" where
  "derive_percentile d =
     (if ''Risk_Percentile'' \<notin> set (columns d) \<and> ''Risk_Score'' \<in> set (columns d) then
        d\<lparr>columns := columns d @ [''Risk_Percentile''], rows := merge_left (rows d) (ranked d)\<rparr>
      else d)"

text \<open>
  \<^verbatim>\<open>pd.cut(x, bins, labels=labels, include_lowest=True)\<close> with the default
  \<^verbatim>\<open>right=True\<close>: the index of a number is the count of bin edges strictly below it
  (\<^verbatim>\<open>bins.searchsorted(x, side="left")\<close>), a number equal to the first edge gets index 1
  when \<^verbatim>\<open>include_lowest\<close> is set, and the indices \<open>0\<close> and \<open>len(bins)\<close> (a number outside
  the edges) give \<^verbatim>\<open>NaN\<close>, as \<^verbatim>\<open>NaN\<close> itself does. Index \<open>i\<close> carries the label \<open>i - 1\<close>.
\<close>

definition searchsorted_left :: "rat list \<Rightarrow> rat \<Rightarrow> nat" where
  "searchsorted_left bins v = length (takeWhile (\<lambda>b. b < v) bins)"

definition cut :: "rat list \<Rightarrow> string list \<Rightarrow> bool \<Rightarrow> rat option \<Rightarrow> string option" where
  "cut bins labels include_lowest x =
     (case x of None \<Rightarrow> None
      | Some v \<Rightarrow>
          let i = (if include_lowest \<and> v = bins ! 0 then 1 else searchsorted_left bins v)
          in if i = 0 \<or> i = length bins then None else Some (labels ! (i - 1)))"

text \<open>Lines 45 to 51 of the program; \<open>33.33\<close> and \<open>66.66\<close> are the two literals.\<close>

definition risk_category :: "rat option \<Rightarrow> string option" where
  "risk_category p =
     cut [0, 3333 / 100, 6666 / 100, 100] [''Low'', ''Moderate'', ''High''] True p"

definition derive_category :: "frame \<Rightarrow> frame" where
  "derive_category d =
     (if ''Risk_Category'' \<notin> set (columns d) \<and> ''Risk_Percentile'' \<in> set (columns d) then
        d\<lparr>columns := columns d @ [''Risk_Category''],
          rows := map (\<lambda>r. r\<lparr>Risk_Category := risk_category (Risk_Percentile r)\<rparr>) (rows d)\<rparr>
      else d)"

text \<open>The frame \<^verbatim>\<open>data\<close> that the helpers below read, from the frame as it was read.\<close>

definition load :: "frame \<Rightarrow> frame" where
  "load raw = derive_category (derive_percentile (strip_county raw))"

text \<open>
  \<^verbatim>\<open>texas_diabetes\<close>: \<open>None\<close> is Python's \<^verbatim>\<open>None\<close>, \<open>Some None\<close> a \<^verbatim>\<open>NaN\<close> cell of the
  first statewide row.
\<close>

definition texas_diabetes :: "frame \<Rightarrow> rat option option" where
  "texas_diabetes d =
     (case filter (\<lambda>r. lower (County r) = ''texas'') (rows d) of
        [] \<Rightarrow> None
      | r # _ \<Rightarrow> if ''Diabetes'' \<in> set (columns d) then Some (Diabetes r) else None)"

section \<open>Formatting numbers\<close>

text \<open>
  The format \<^verbatim>\<open>.Nf\<close> prints the exact value of a float rounded to \<open>N\<close> decimals, a tie
  going to the even neighbour, with a minus sign for a negative value and \<^verbatim>\<open>nan\<close> for
  \<^verbatim>\<open>NaN\<close>; the option \<^verbatim>\<open>,\<close> groups the integer digits in threes.
\<close>

fun digits :: "nat \<Rightarrow> string" where
  "digits n =
     (if n < 10 then [''0123456789'' ! n]
      else digits (n div 10) @ [''0123456789'' ! (n mod 10)])"

definition round_half_even :: "rat \<Rightarrow> int" where
  "round_half_even x =
     (let f = \<lfloor>x\<rfloor>; r = x - of_int f
      in if r < 1 / 2 then f else if 1 / 2 < r then f + 1 else if even f then f else f + 1)"

fun commas_rev :: "string \<Rightarrow> string" where
  "commas_rev (a # b # c # d # s) = a # b # c # CHR '','' # commas_rev (d # s)"
| "commas_rev s = s"

definition group3 :: "string \<Rightarrow> string" where
  "group3 s = rev (commas_rev (rev s))"

definition format_f :: "nat \<Rightarrow> bool \<Rightarrow> rat option \<Rightarrow> string" where
  "format_f k comma x =
     (case x of None \<Rightarrow> ''nan''
      | Some q \<Rightarrow>
          let n = nat (round_half_even (\<bar>q\<bar> * 10 ^ k));
              ip = digits (n div 10 ^ k);
              fp = digits (n mod 10 ^ k)
          in (if q < 0 then ''-'' else [])
             @ (if comma then group3 ip else ip)
             @ (if k = 0 then [] else ''.'' @ replicate (k - length fp) CHR ''0'' @ fp))"

text \<open>\<^verbatim>\<open>int(x)\<close> on a float: towards zero, \<^verbatim>\<open>ValueError\<close> on \<^verbatim>\<open>NaN\<close>; and \<^verbatim>\<open>str\<close> of an integer.\<close>

definition trunc :: "rat \<Rightarrow> int" where
  "trunc q = (if 0 \<le> q then \<lfloor>q\<rfloor> else \<lceil>q\<rceil>)"

definition py_int :: "rat option \<Rightarrow> error + int" where
  "py_int x = (case x of None \<Rightarrow> Inl ValueError | Some q \<Rightarrow> Inr (trunc q))"

definition str_int :: "int \<Rightarrow> string" where
  "str_int i = (if i < 0 then ''-'' else []) @ digits (nat \<bar>i\<bar>)"

text \<open>
  \<^verbatim>\<open>str\<close> of a float cell: \<^verbatim>\<open>nan\<close> for \<^verbatim>\<open>NaN\<close>. For a number Python prints the shortest
  decimal that reads back as the same float; that printer is the parameter \<open>repr\<close>.
\<close>

definition str_float :: "(rat \<Rightarrow> string) \<Rightarrow> rat option \<Rightarrow> string" where
  "str_float repr x = (case x of None \<Rightarrow> ''nan'' | Some q \<Rightarrow> repr q)"

section \<open>The explanation\<close>

fun join :: "string \<Rightarrow> string list \<Rightarrow> string" where
  "join sep [] = []"
| "join sep [x] = x"
| "join sep (x # y # ys) = x @ sep @ join sep (y # ys)"

text \<open>
  \<^verbatim>\<open>risk_explanation(row)\<close> appends to \<^verbatim>\<open>parts\<close> in four blocks; each block is a function
  giving what it appends. \<open>td\<close> is the global \<^verbatim>\<open>texas_diabetes\<close>; the dictionary \<open>row\<close> is
  its keys \<open>cols\<close> and its values \<open>row\<close>. The apostrophe of the first sentences is U+2019,
  three bytes in UTF-8.
\<close>

definition benchmark_sentence :: "string \<Rightarrow> rat option \<Rightarrow> string" where
  "benchmark_sentence word t =
     ''This county'' @ [CHR 0xE2, CHR 0x80, CHR 0x99] @ ''s diabetes prevalence is **'' @ word
     @ ''** the Texas overall value (**'' @ format_f 1 False t @ ''%**).''"

text \<open>A comparison of two floats is false when either is \<^verbatim>\<open>NaN\<close>.\<close>

definition float_gt :: "rat option \<Rightarrow> rat option \<Rightarrow> bool" where
  "float_gt a b = (case (a, b) of (Some x, Some y) \<Rightarrow> y < x | _ \<Rightarrow> False)"

definition benchmark_part :: "rat option option \<Rightarrow> string list \<Rightarrow> county_row \<Rightarrow> string list" where
  "benchmark_part td cols row =
     (case td of
        None \<Rightarrow> []
      | Some t \<Rightarrow>
          if ''Diabetes'' \<in> set cols \<and> Diabetes row \<noteq> None then
            (if float_gt (Diabetes row) t
             then [benchmark_sentence ''above'' t]
             else [benchmark_sentence ''below'' t])
          else [])"

definition category_part :: "string list \<Rightarrow> county_row \<Rightarrow> string list" where
  "category_part cols row =
     (if ''Risk_Category'' \<in> set cols \<and> Risk_Category row \<noteq> None
      then [''Overall, the composite risk level is **'' @ the (Risk_Category row) @ ''**.'']
      else [])"

definition drivers :: "string list \<Rightarrow> county_row \<Rightarrow> string list" where
  "drivers cols row =
     (let ds = [];
          ds = (if ''Obesity'' \<in> set cols \<and> (case Obesity row of None \<Rightarrow> False | Some v \<Rightarrow> 35 \<le> v)
                then ds @ [''higher obesity''] else ds);
          ds = (if ''Uninsured'' \<in> set cols \<and> (case Uninsured row of None \<Rightarrow> False | Some v \<Rightarrow> 15 \<le> v)
                then ds @ [''higher uninsured rate''] else ds);
          ds = (if ''Median_Income'' \<in> set cols \<and>
                   (case Median_Income row of None \<Rightarrow> False | Some v \<Rightarrow> v \<le> 60000)
                then ds @ [''lower median income''] else ds)
      in ds)"

definition drivers_part :: "string list \<Rightarrow> county_row \<Rightarrow> string list" where
  "drivers_part cols row =
     (if drivers cols row \<noteq> []
      then [''Key drivers in this profile include '' @ join '', '' (drivers cols row) @ ''.'']
      else [])"

definition pm25_part :: "string list \<Rightarrow> county_row \<Rightarrow> string list" where
  "pm25_part cols row =
     (if ''PM2.5'' \<in> set cols \<and> PM25 row \<noteq> None
      then [''PM2.5 is included for context; in this dataset it showed a weaker direct county-level correlation with diabetes than obesity, income, and uninsured rate.'']
      else [])"

definition explanation_parts :: "rat option option \<Rightarrow> string list \<Rightarrow> county_row \<Rightarrow> string list" where
  "explanation_parts td cols row =
     benchmark_part td cols row @ category_part cols row @ drivers_part cols row @ pm25_part cols row"

definition risk_explanation :: "rat option option \<Rightarrow> string list \<Rightarrow> county_row \<Rightarrow> string" where
  "risk_explanation td cols row =
     (if explanation_parts td cols row \<noteq> [] then join '' '' (explanation_parts td cols row)
      else ''Ask about another county or explore the Rankings tab.'')"

section \<open>The responder\<close>

text \<open>
  \<^verbatim>\<open>row[name]\<close> on the selected row raises \<^verbatim>\<open>KeyError\<close> when the frame has no such
  column. The fields of the template are evaluated from left to right, so the first
  failure is the one raised.
\<close>

definition getitem :: "string list \<Rightarrow> string \<Rightarrow> 'a \<Rightarrow> error + 'a" where
  "getitem cols name v = (if name \<in> set cols then Inr v else Inl KeyError)"

definition bind :: "error + 'a \<Rightarrow> ('a \<Rightarrow> error + 'b) \<Rightarrow> error + 'b" where
  "bind m f = (case m of Inl e \<Rightarrow> Inl e | Inr v \<Rightarrow> f v)"

definition bullet :: string where
  "bullet = [CHR 0xE2, CHR 0x80, CHR 0xA2]"

definition nl :: string where
  "nl = [CHR 0x0A]"

definition stats_response :: "(rat \<Rightarrow> string) \<Rightarrow> string list \<Rightarrow> string \<Rightarrow> county_row \<Rightarrow> error + string" where
  "stats_response repr cols county row =
     bind (getitem cols ''Diabetes'' (Diabetes row)) (\<lambda>diabetes.
     bind (getitem cols ''Obesity'' (Obesity row)) (\<lambda>obesity.
     bind (getitem cols ''Uninsured'' (Uninsured row)) (\<lambda>uninsured.
     bind (getitem cols ''Median_Income'' (Median_Income row)) (\<lambda>income.
     bind (getitem cols ''Risk_Score'' (Risk_Score row)) (\<lambda>score.
     bind (getitem cols ''Risk_Rank'' (Risk_Rank row)) (\<lambda>rank.
     bind (py_int rank) (\<lambda>rank_int.
       Inr (nl @ ''Here are the health stats for '' @ county @ '':'' @ nl @ nl
            @ bullet @ '' Diabetes rate: '' @ str_float repr diabetes @ ''%'' @ nl
            @ bullet @ '' Obesity rate: '' @ str_float repr obesity @ ''%'' @ nl
            @ bullet @ '' Uninsured: '' @ str_float repr uninsured @ ''%'' @ nl
            @ bullet @ '' Median Income: $'' @ format_f 0 True income @ nl
            @ bullet @ '' Composite Risk Score: '' @ format_f 2 False score @ nl
            @ bullet @ '' Risk Rank (TX counties): '' @ str_int rank_int @ nl))))))))"

definition not_found :: string where
  "not_found = ''I couldn'' @ [CHR 0x27] @ ''t find that county. Try asking about a Texas county!''"

text \<open>
  \<^verbatim>\<open>chatbot(message)\<close>: the loop runs over the column \<^verbatim>\<open>data['County']\<close> in table
  order and returns at the first name whose lower-case form occurs in the lower-cased
  message, with the first row of that name formatted.
\<close>

fun scan :: "(rat \<Rightarrow> string) \<Rightarrow> frame \<Rightarrow> string \<Rightarrow> string list \<Rightarrow> error + string" where
  "scan repr d msg [] = Inr not_found"
| "scan repr d msg (county # cs) =
     (if sublist (lower county) msg then
        bind (iloc0 (filter (\<lambda>r. County r = county) (rows d)))
          (\<lambda>row. stats_response repr (columns d) county row)
      else scan repr d msg cs)"

definition chatbot :: "(rat \<Rightarrow> string) \<Rightarrow> frame \<Rightarrow> string \<Rightarrow> error + string" where
  "chatbot repr d message = scan repr d (lower message) (map County (rows d))"

text \<open>
  The sidebar's rank, line 147 of the program:
  \<^verbatim>\<open>int(row.get('Risk_Rank')) if pd.notna(row.get('Risk_Rank', None)) else 'N/A'\<close>.
  An absent column reads as \<^verbatim>\<open>None\<close>, which is not a number either.
\<close>

definition risk_rank_metric :: "string list \<Rightarrow> county_row \<Rightarrow> string" where
  "risk_rank_metric cols row =
     (case (if ''Risk_Rank'' \<in> set cols then Risk_Rank row else None) of
        None \<Rightarrow> ''N/A''
      | Some q \<Rightarrow> str_int (trunc q))"

section \<open>Example tables\<close>

definition blank_row :: county_row where
  "blank_row =
     \<lparr>County = [], Diabetes = None, Obesity = None, Uninsured = None, Median_Income = None,
      Risk_Score = None, Risk_Rank = None, PM25 = None, Risk_Percentile = None,
      Risk_Category = None\<rparr>"

text \<open>A file whose names need trimming, repeat, and name the state in two spellings.\<close>

definition raw_names :: frame where
  "raw_names =
     \<lparr>columns = [''County''],
      rows = [blank_row\<lparr>County := '' Harris''\<rparr>, blank_row\<lparr>County := ''Texas ''\<rparr>,
              blank_row\<lparr>County := ''Bell''\<rparr>, blank_row\<lparr>County := ''Harris''\<rparr>,
              blank_row\<lparr>County := ''TEXAS''\<rparr>]\<rparr>"

text \<open>A file that brings its own percentiles, on and between the bin edges.\<close>

definition with_percentiles :: frame where
  "with_percentiles =
     \<lparr>columns = [''County'', ''Risk_Percentile''],
      rows = [blank_row\<lparr>County := ''A'', Risk_Percentile := Some 0\<rparr>,
              blank_row\<lparr>County := ''B'', Risk_Percentile := Some (3333 / 100)\<rparr>,
              blank_row\<lparr>County := ''C'', Risk_Percentile := Some 50\<rparr>,
              blank_row\<lparr>County := ''D'', Risk_Percentile := Some 100\<rparr>]\<rparr>"

definition on_the_edge :: frame where
  "on_the_edge =
     \<lparr>columns = [''County'', ''Risk_Percentile''],
      rows = [blank_row\<lparr>County := ''B'', Risk_Percentile := Some (3333 / 100)\<rparr>]\<rparr>"

text \<open>
  Three rows in an order that is not the alphabetical one, the statewide row between two
  counties; the last county has no rank and no uninsured rate.
\<close>

definition harris :: county_row where
  "harris =
     blank_row\<lparr>County := ''Harris'', Diabetes := Some (57 / 4), Obesity := Some 36,
       Uninsured := Some 18, Median_Income := Some 55000, Risk_Score := Some 80,
       Risk_Rank := Some 1\<rparr>"

definition texas :: county_row where
  "texas =
     blank_row\<lparr>County := ''Texas'', Diabetes := Some 11, Obesity := Some 34,
       Uninsured := Some 17, Median_Income := Some 67000, Risk_Score := Some (101 / 2),
       Risk_Rank := Some 0\<rparr>"

definition bell :: county_row where
  "bell =
     blank_row\<lparr>County := ''Bell'', Diabetes := Some (21 / 2), Obesity := Some 30,
       Median_Income := Some 70000, Risk_Score := Some 20\<rparr>"

definition sample :: frame where
  "sample =
     \<lparr>columns = [''County'', ''Diabetes'', ''Obesity'', ''Uninsured'', ''Median_Income'',
                 ''Risk_Score'', ''Risk_Rank''],
      rows = [harris, texas, bell]\<rparr>"



text \<open>
  A file with scores and neither percentiles nor categories: the statewide row first, a
  tie between two counties, and a county whose score is blank.
\<close>

definition scored :: frame where
  "scored =
     \<lparr>columns = [''County'', ''Risk_Score''],
      rows = [blank_row\<lparr>County := ''Texas'', Risk_Score := Some 99\<rparr>,
              blank_row\<lparr>County := ''Harris'', Risk_Score := Some 80\<rparr>,
              blank_row\<lparr>County := ''Bell'', Risk_Score := Some 20\<rparr>,
              blank_row\<lparr>County := ''Travis'', Risk_Score := Some 20\<rparr>,
              blank_row\<lparr>County := ''Bexar''\<rparr>]\<rparr>"

text \<open>A file with scores in which two rows carry the same name.\<close>

definition repeated :: frame where
  "repeated =
     \<lparr>columns = [''County'', ''Risk_Score''],
      rows = [blank_row\<lparr>County := ''Bell'', Risk_Score := Some 10\<rparr>,
              blank_row\<lparr>County := ''Bell'', Risk_Score := Some 90\<rparr>,
              blank_row\<lparr>County := ''Harris'', Risk_Score := Some 50\<rparr>]\<rparr>"


section \<open>Facts about the helpers\<close>

declare digits.simps [simp del]


lemma set_unique: "set (unique xs) = set xs"
  by (induction xs rule: unique.induct) auto

lemma distinct_unique: "distinct (unique xs)"
  by (induction xs rule: unique.induct) (auto simp: set_unique)

lemma strip_not_space:
  assumes "strip s \<noteq> []"
  shows "\<not> is_space (hd (strip s))" and "\<not> is_space (last (strip s))"
proof -
  define u where "u = dropWhile is_space s"
  define v where "v = dropWhile is_space (rev u)"
  have s: "strip s = rev v" by (simp add: strip_def u_def v_def)
  with assms have v: "v \<noteq> []" by simp
  then have hv: "\<not> is_space (hd v)"
    unfolding v_def by (metis hd_dropWhile)
  have "rev u = takeWhile is_space (rev u) @ v"
    by (simp add: v_def)
  then have lv: "last v = last (rev u)"
    using v by (metis last_appendR)
  from v have u: "u \<noteq> []" by (auto simp: v_def)
  then have "\<not> is_space (hd u)"
    unfolding u_def by (metis hd_dropWhile)
  with lv u have "\<not> is_space (last v)" by (simp add: last_rev)
  then show "\<not> is_space (hd (strip s))" using v s by (simp add: hd_rev)
  show "\<not> is_space (last (strip s))" using hv v s by (simp add: last_rev)
qed

lemma strip_fixed:
  assumes "t = [] \<or> (\<not> is_space (hd t) \<and> \<not> is_space (last t))"
  shows "strip t = t"
proof (cases "t = []")
  case True
  then show ?thesis by (simp add: strip_def)
next
  case False
  with assms have h: "\<not> is_space (hd t)" and l: "\<not> is_space (last t)" by auto
  from False h have 1: "dropWhile is_space t = t" by (cases t) auto
  from False l have 2: "dropWhile is_space (rev t) = rev t"
    by (cases "rev t") (auto simp: last_rev hd_rev dest: arg_cong [where f = hd])
  show ?thesis by (simp add: strip_def 1 2)
qed

lemma strip_idem: "strip (strip s) = strip s"
  by (rule strip_fixed) (use strip_not_space [of s] in blast)

lemma County_strip_county:
  "map County (rows (strip_county raw)) = map (\<lambda>r. strip (County r)) (rows raw)"
  by (simp add: strip_county_def comp_def)

lemma set_counties: "set (counties d) = {c \<in> County ` set (rows d). lower c \<noteq> ''texas''}"
  by (auto simp: counties_def set_unique)

lemma sorted_counties: "sorted (counties d)"
  by (simp add: counties_def)

lemma distinct_counties: "distinct (counties d)"
  by (simp add: counties_def distinct_unique)

lemma County_image_strip:
  "County ` set (rows (strip_county raw)) = (\<lambda>r. strip (County r)) ` set (rows raw)"
  by (simp add: strip_county_def image_image)

section \<open>The county index\<close>

text \<open>
  C8. For every table as read, the list of counties computed from the trimmed names is
  sorted (in the order of Python's strings), has no duplicates, holds no name that is
  \<open>texas\<close> in lower case, and holds only trimmed names: exactly the trimmed names of the
  table other than the statewide ones.
\<close>

theorem counties_sorted_distinct:
  "sorted (counties (strip_county raw)) \<and> distinct (counties (strip_county raw)) \<and>
   (\<forall>c \<in> set (counties (strip_county raw)). lower c \<noteq> ''texas'' \<and> strip c = c) \<and>
   set (counties (strip_county raw)) =
     {c \<in> (\<lambda>r. strip (County r)) ` set (rows raw). lower c \<noteq> ''texas''}"
proof (intro conjI ballI)
  show "sorted (counties (strip_county raw))" by (rule sorted_counties)
  show "distinct (counties (strip_county raw))" by (rule distinct_counties)
  show s: "set (counties (strip_county raw)) =
      {c \<in> (\<lambda>r. strip (County r)) ` set (rows raw). lower c \<noteq> ''texas''}"
    unfolding set_counties County_image_strip ..
  fix c assume c: "c \<in> set (counties (strip_county raw))"
  then show "lower c \<noteq> ''texas''" unfolding s by (rule CollectE) (erule conjunct2)
  from c have "c \<in> (\<lambda>r. strip (County r)) ` set (rows raw)"
    unfolding s by (rule CollectE) (erule conjunct1)
  then obtain r :: county_row where "c = strip (County r)" ..
  then show "strip c = c" by (simp only: strip_idem)
qed

theorem counties_sorted_distinct_witness:
  "counties (strip_county raw_names) = [''Bell'', ''Harris''] \<and>
   sorted [''Bell'', ''Harris''] \<and> distinct [''Bell'', ''Harris''] \<and>
   lower ''Harris'' \<noteq> ''texas'' \<and> strip ''Harris'' = ''Harris''"
proof -
  have e: "counties (strip_county raw_names) = [''Bell'', ''Harris'']"
    by (simp add: counties_def strip_county_def raw_names_def blank_row_def strip_def
        is_space_def lower_def lower_char_def)
  from counties_sorted_distinct [of raw_names]
  have w: "sorted [''Bell'', ''Harris''] \<and> distinct [''Bell'', ''Harris''] \<and>
      (\<forall>c \<in> set [''Bell'', ''Harris'']. lower c \<noteq> ''texas'' \<and> strip c = c)"
    unfolding e by (elim conjE) (intro conjI)
  then have 3: "\<forall>c \<in> set [''Bell'', ''Harris'']. lower c \<noteq> ''texas'' \<and> strip c = c"
    by (elim conjE)
  have "''Harris'' \<in> set [''Bell'', ''Harris'']" by simp
  with 3 have "lower ''Harris'' \<noteq> ''texas'' \<and> strip ''Harris'' = ''Harris''" by (rule bspec)
  with e w show ?thesis by (elim conjE) (intro conjI)
qed

section \<open>The risk category\<close>

lemma risk_category_Some:
  "risk_category (Some p) =
     (if 0 \<le> p \<and> p \<le> 3333 / 100 then Some ''Low''
      else if 3333 / 100 < p \<and> p \<le> 6666 / 100 then Some ''Moderate''
      else if 6666 / 100 < p \<and> p \<le> 100 then Some ''High''
      else None)"
  by (simp add: risk_category_def cut_def searchsorted_left_def)

lemma risk_category_None: "risk_category None = None"
  by (simp add: risk_category_def cut_def)

lemma risk_category_cases:
  "risk_category x =
     (case x of
        None \<Rightarrow> None
      | Some p \<Rightarrow>
          if 0 \<le> p \<and> p \<le> 3333 / 100 then Some ''Low''
          else if 3333 / 100 < p \<and> p \<le> 6666 / 100 then Some ''Moderate''
          else if 6666 / 100 < p \<and> p \<le> 100 then Some ''High''
          else None)"
  by (cases x) (simp_all only: option.case risk_category_None risk_category_Some)

text \<open>
  C1, as the program has it. When the table has no \<open>Risk_Category\<close> column and has a
  \<open>Risk_Percentile\<close> column, every row gets the label of its percentile, and the bins are
  closed on the right: \<open>Low\<close> is \<open>[0, 33.33]\<close>, \<open>Moderate\<close> is \<open>(33.33, 66.66]\<close>, \<open>High\<close> is
  \<open>(66.66, 100]\<close>; a missing percentile and a percentile outside \<open>[0, 100]\<close> get no label.
  So the percentile 0 is \<open>Low\<close>, and the percentile 33.33 is \<open>Low\<close> too.
\<close>

theorem derive_category_buckets:
  assumes "''Risk_Category'' \<notin> set (columns d)" and "''Risk_Percentile'' \<in> set (columns d)"
  shows "map Risk_Category (rows (derive_category d)) =
    map (\<lambda>r. case Risk_Percentile r of
               None \<Rightarrow> None
             | Some p \<Rightarrow>
                 if 0 \<le> p \<and> p \<le> 3333 / 100 then Some ''Low''
                 else if 3333 / 100 < p \<and> p \<le> 6666 / 100 then Some ''Moderate''
                 else if 6666 / 100 < p \<and> p \<le> 100 then Some ''High''
                 else None) (rows d)"
  using assms by (simp add: derive_category_def risk_category_cases)

theorem derive_category_buckets_witness:
  "''Risk_Category'' \<notin> set (columns with_percentiles) \<and>
   ''Risk_Percentile'' \<in> set (columns with_percentiles) \<and>
   map Risk_Percentile (rows with_percentiles) = [Some 0, Some (3333 / 100), Some 50, Some 100] \<and>
   map Risk_Category (rows (derive_category with_percentiles)) =
     [Some ''Low'', Some ''Low'', Some ''Moderate'', Some ''High'']"
proof -
  have 1: "''Risk_Category'' \<notin> set (columns with_percentiles)"
    and 2: "''Risk_Percentile'' \<in> set (columns with_percentiles)"
    and 3: "map Risk_Percentile (rows with_percentiles) =
      [Some 0, Some (3333 / 100), Some 50, Some 100]"
    by (simp_all add: with_percentiles_def blank_row_def)
  have "map Risk_Category (rows (derive_category with_percentiles)) =
      [Some ''Low'', Some ''Low'', Some ''Moderate'', Some ''High'']"
    unfolding derive_category_buckets [OF 1 2]
    by (simp add: with_percentiles_def blank_row_def)
  with 1 2 3 show ?thesis by (intro conjI)
qed

text \<open>The percentile 33.33 is not labelled \<open>Moderate\<close>.\<close>

theorem percentile_on_the_edge_is_low:
  "''Risk_Category'' \<notin> set (columns on_the_edge) \<and>
   ''Risk_Percentile'' \<in> set (columns on_the_edge) \<and>
   map Risk_Percentile (rows on_the_edge) = [Some (3333 / 100)] \<and>
   map Risk_Category (rows (derive_category on_the_edge)) = [Some ''Low''] \<and>
   map Risk_Category (rows (derive_category on_the_edge)) \<noteq> [Some ''Moderate'']"
  by (simp add: on_the_edge_def blank_row_def derive_category_def risk_category_Some)

section \<open>Looking a county up\<close>

lemma iloc0_filter_find:
  "iloc0 (filter P xs) = (case find P xs of None \<Rightarrow> Inl IndexError | Some x \<Rightarrow> Inr x)"
  by (induction xs) (simp_all add: iloc0_def)

lemma county_snapshot_find:
  "county_snapshot d county =
     (case find (\<lambda>r. County r = county) (rows d) of
        None \<Rightarrow> Inl IndexError
      | Some r \<Rightarrow> Inr (columns d, r))"
  by (simp add: county_snapshot_def iloc0_filter_find split: option.split)

lemma county_snapshot_miss:
  "county \<notin> County ` set (rows d) \<Longrightarrow> county_snapshot d county = Inl IndexError"
proof -
  assume "county \<notin> County ` set (rows d)"
  then have "find (\<lambda>r. County r = county) (rows d) = None"
    by (auto simp: find_None_iff)
  then show ?thesis by (simp add: county_snapshot_find)
qed


lemma counties_subset: "c \<in> set (counties d) \<Longrightarrow> c \<in> County ` set (rows d)"
  unfolding set_counties by (erule CollectE) (erule conjunct1)

lemma sample_rows: "rows sample = [harris, texas, bell]" and sample_columns:
  "columns sample = [''County'', ''Diabetes'', ''Obesity'', ''Uninsured'', ''Median_Income'',
     ''Risk_Score'', ''Risk_Rank'']"
  by (simp_all add: sample_def)

lemma sample_names: "County harris = ''Harris''" "County texas = ''Texas''" "County bell = ''Bell''"
  by (simp_all add: harris_def texas_def bell_def blank_row_def)

lemma counties_sample: "counties sample = [''Bell'', ''Harris'']"
  by (simp add: counties_def sample_rows sample_names lower_def lower_char_def)

text \<open>
  C3, as the program has it. A lookup by a name that some row carries returns the first
  such row, with the columns of the table as its keys, and every name of the county list
  is such a name. A lookup by any other name raises \<open>IndexError\<close>; no sentinel stands
  for a miss.
\<close>

theorem county_snapshot_hit_or_IndexError:
  "(county \<in> set (counties d) \<longrightarrow> county \<in> County ` set (rows d)) \<and>
   (county \<in> County ` set (rows d) \<longrightarrow>
      (\<exists>r. find (\<lambda>r. County r = county) (rows d) = Some r \<and> County r = county \<and>
           county_snapshot d county = Inr (columns d, r))) \<and>
   (county \<notin> County ` set (rows d) \<longrightarrow> county_snapshot d county = Inl IndexError)"
proof (intro conjI impI)
  assume "county \<in> set (counties d)"
  then show "county \<in> County ` set (rows d)" by (rule counties_subset)
next
  assume "county \<in> County ` set (rows d)"
  then have "find (\<lambda>r. County r = county) (rows d) \<noteq> None"
    by (auto simp: find_None_iff)
  then obtain r where r: "find (\<lambda>r. County r = county) (rows d) = Some r" by blast
  then have "County r = county" by (auto simp: find_Some_iff)
  with r show "\<exists>r. find (\<lambda>r. County r = county) (rows d) = Some r \<and> County r = county \<and>
      county_snapshot d county = Inr (columns d, r)"
    by (simp add: county_snapshot_find)
next
  assume "county \<notin> County ` set (rows d)"
  then show "county_snapshot d county = Inl IndexError" by (rule county_snapshot_miss)
qed

theorem county_snapshot_hit_or_IndexError_witness:
  "''Bell'' \<in> set (counties sample) \<and> county_snapshot sample ''Bell'' = Inr (columns sample, bell)"
proof -
  have m: "''Bell'' \<in> set (counties sample)" by (simp add: counties_sample)
  have f: "find (\<lambda>r. County r = ''Bell'') (rows sample) = Some bell"
    by (simp add: sample_rows sample_names)
  from county_snapshot_hit_or_IndexError [of "''Bell''" sample] m
  obtain r where "find (\<lambda>r. County r = ''Bell'') (rows sample) = Some r"
    and "county_snapshot sample ''Bell'' = Inr (columns sample, r)"
    by blast
  with f have "county_snapshot sample ''Bell'' = Inr (columns sample, bell)" by simp
  with m show ?thesis by (rule conjI)
qed

text \<open>A name that no row carries: the lookup raises.\<close>

theorem county_snapshot_miss_raises:
  "county_snapshot sample ''Nowhere'' = Inl IndexError"
  by (simp add: county_snapshot_def iloc0_def sample_rows sample_names)

section \<open>Finding a county in a message\<close>








section \<open>The explanation\<close>

lemma round_half_even_near: "\<bar>of_int (round_half_even x) - x\<bar> \<le> 1 / 2"
proof -
  have "of_int \<lfloor>x\<rfloor> \<le> x" and "x < of_int \<lfloor>x\<rfloor> + 1" by linarith+
  then show ?thesis
    by (auto simp: round_half_even_def Let_def abs_le_iff)
qed

lemma digits_one: "n < 10 \<Longrightarrow> digits n = [''0123456789'' ! n]"
  by (simp add: digits.simps)

lemma format_f_one_decimal:
  "format_f 1 False (Some b) =
     (if b < 0 then ''-'' else []) @ digits (nat (round_half_even (\<bar>b\<bar> * 10)) div 10) @ ''.'' @
     [''0123456789'' ! (nat (round_half_even (\<bar>b\<bar> * 10)) mod 10)]"
  by (simp add: format_f_def Let_def digits_one)

lemma prefix_join: "prefix x (join sep (x # xs))"
  by (cases xs) simp_all

lemma texas_diabetes_sample: "texas_diabetes sample = Some (Some 11)"
  by (simp add: texas_diabetes_def sample_rows sample_names sample_columns lower_def lower_char_def)
    (simp add: texas_def blank_row_def)

lemma format_11: "format_f 1 False (Some 11) = ''11.0''"
  by (simp add: format_f_def round_half_even_def Let_def digits.simps)

text \<open>
  C7. With a benchmark (\<open>texas_diabetes\<close> is not Python's \<open>None\<close>) and a row whose
  \<open>Diabetes\<close> is present and not missing, the first sentence of the explanation is the
  benchmark sentence: it says \<open>above\<close> exactly when the row's value is strictly greater
  than the benchmark and \<open>below\<close> otherwise (so also when the two are equal), and it
  prints the benchmark with the format \<open>.1f\<close>.
\<close>

theorem benchmark_above_iff_greater:
  assumes "td = Some t" and "''Diabetes'' \<in> set cols" and "Diabetes row = Some v"
  shows "explanation_parts td cols row =
      (''This county'' @ [CHR 0xE2, CHR 0x80, CHR 0x99] @ ''s diabetes prevalence is **''
        @ (if \<exists>b. t = Some b \<and> b < v then ''above'' else ''below'')
        @ ''** the Texas overall value (**'' @ format_f 1 False t @ ''%**).'')
      # category_part cols row @ drivers_part cols row @ pm25_part cols row \<and>
    prefix
      (''This county'' @ [CHR 0xE2, CHR 0x80, CHR 0x99] @ ''s diabetes prevalence is **''
        @ (if \<exists>b. t = Some b \<and> b < v then ''above'' else ''below'')
        @ ''** the Texas overall value (**'' @ format_f 1 False t @ ''%**).'')
      (risk_explanation td cols row)"
proof (rule conjI)
  show p: "explanation_parts td cols row =
      (''This county'' @ [CHR 0xE2, CHR 0x80, CHR 0x99] @ ''s diabetes prevalence is **''
        @ (if \<exists>b. t = Some b \<and> b < v then ''above'' else ''below'')
        @ ''** the Texas overall value (**'' @ format_f 1 False t @ ''%**).'')
      # category_part cols row @ drivers_part cols row @ pm25_part cols row"
  proof (cases t)
    case None
    with assms show ?thesis
      by (simp add: explanation_parts_def benchmark_part_def benchmark_sentence_def float_gt_def)
  next
    case (Some b)
    with assms show ?thesis
      by (simp add: explanation_parts_def benchmark_part_def benchmark_sentence_def float_gt_def)
  qed
  show "prefix
      (''This county'' @ [CHR 0xE2, CHR 0x80, CHR 0x99] @ ''s diabetes prevalence is **''
        @ (if \<exists>b. t = Some b \<and> b < v then ''above'' else ''below'')
        @ ''** the Texas overall value (**'' @ format_f 1 False t @ ''%**).'')
      (risk_explanation td cols row)"
    unfolding risk_explanation_def p by (simp only: list.distinct if_True simp_thms prefix_join)
qed

theorem benchmark_above_iff_greater_witness:
  "texas_diabetes sample = Some (Some 11) \<and> ''Diabetes'' \<in> set (columns sample) \<and>
   Diabetes harris = Some (57 / 4) \<and> Diabetes bell = Some (21 / 2) \<and>
   hd (explanation_parts (texas_diabetes sample) (columns sample) harris) =
     ''This county'' @ [CHR 0xE2, CHR 0x80, CHR 0x99] @
     ''s diabetes prevalence is **above** the Texas overall value (**11.0%**).'' \<and>
   hd (explanation_parts (texas_diabetes sample) (columns sample) bell) =
     ''This county'' @ [CHR 0xE2, CHR 0x80, CHR 0x99] @
     ''s diabetes prevalence is **below** the Texas overall value (**11.0%**).''"
proof -
  have 1: "texas_diabetes sample = Some (Some 11)" by (rule texas_diabetes_sample)
  have 2: "''Diabetes'' \<in> set (columns sample)" by (simp add: sample_columns)
  have 3: "Diabetes harris = Some (57 / 4)" by (simp add: harris_def blank_row_def)
  have 4: "Diabetes bell = Some (21 / 2)" by (simp add: bell_def blank_row_def)
  have 5: "hd (explanation_parts (texas_diabetes sample) (columns sample) harris) =
     ''This county'' @ [CHR 0xE2, CHR 0x80, CHR 0x99] @
     ''s diabetes prevalence is **above** the Texas overall value (**11.0%**).''"
    unfolding benchmark_above_iff_greater [OF 1 2 3, THEN conjunct1] by (simp add: format_11 [unfolded One_nat_def])
  have 6: "hd (explanation_parts (texas_diabetes sample) (columns sample) bell) =
     ''This county'' @ [CHR 0xE2, CHR 0x80, CHR 0x99] @
     ''s diabetes prevalence is **below** the Texas overall value (**11.0%**).''"
    unfolding benchmark_above_iff_greater [OF 1 2 4, THEN conjunct1] by (simp add: format_11 [unfolded One_nat_def])
  from 1 2 3 4 5 6 show ?thesis by (intro conjI)
qed

lemma drivers_harris:
  "Obesity harris = Some 36" "Uninsured harris = Some 18" "Median_Income harris = Some 55000"
  by (simp_all add: harris_def blank_row_def)

lemma drivers_bell:
  "Obesity bell = Some 30" "Uninsured bell = None" "Median_Income bell = Some 70000"
  by (simp_all add: bell_def blank_row_def)

lemma member_sublist_join: "x \<in> set xs \<Longrightarrow> sublist x (join sep xs)"
proof (induction sep xs rule: join.induct)
  case (1 sep)
  then show ?case by simp
next
  case (2 sep y)
  then show ?case by simp
next
  case (3 sep y z zs)
  show ?case
  proof (cases "x = y")
    case True
    then show ?thesis by (simp add: sublist_append)
  next
    case False
    with 3 have "sublist x (join sep (z # zs))" by simp
    then show ?thesis by (simp add: sublist_append)
  qed
qed

lemma drivers_fired:
  "drivers cols row =
     (if ''Obesity'' \<in> set cols \<and> (\<exists>v. Obesity row = Some v \<and> 35 \<le> v)
      then [''higher obesity''] else []) @
     (if ''Uninsured'' \<in> set cols \<and> (\<exists>v. Uninsured row = Some v \<and> 15 \<le> v)
      then [''higher uninsured rate''] else []) @
     (if ''Median_Income'' \<in> set cols \<and> (\<exists>v. Median_Income row = Some v \<and> v \<le> 60000)
      then [''lower median income''] else [])"
proof -
  have o: "(case Obesity row of None \<Rightarrow> False | Some v \<Rightarrow> 35 \<le> v) \<longleftrightarrow>
      (\<exists>v. Obesity row = Some v \<and> 35 \<le> v)"
    by (cases "Obesity row") simp_all
  have u: "(case Uninsured row of None \<Rightarrow> False | Some v \<Rightarrow> 15 \<le> v) \<longleftrightarrow>
      (\<exists>v. Uninsured row = Some v \<and> 15 \<le> v)"
    by (cases "Uninsured row") simp_all
  have m: "(case Median_Income row of None \<Rightarrow> False | Some v \<Rightarrow> v \<le> 60000) \<longleftrightarrow>
      (\<exists>v. Median_Income row = Some v \<and> v \<le> 60000)"
    by (cases "Median_Income row") simp_all
  show ?thesis unfolding drivers_def Let_def o u m by auto
qed

lemma no_driver_sentence_elsewhere:
  "filter (prefix ''Key drivers in this profile include '') (benchmark_part td cols row) = []"
  "filter (prefix ''Key drivers in this profile include '') (category_part cols row) = []"
  "filter (prefix ''Key drivers in this profile include '') (pm25_part cols row) = []"
  by (simp_all add: benchmark_part_def benchmark_sentence_def category_part_def pm25_part_def
      split: option.split)

lemma sample_parts:
  "benchmark_part (texas_diabetes sample) (columns sample) harris =
     [''This county'' @ [CHR 0xE2, CHR 0x80, CHR 0x99] @
      ''s diabetes prevalence is **above** the Texas overall value (**11.0%**).'']"
  "benchmark_part (texas_diabetes sample) (columns sample) bell =
     [''This county'' @ [CHR 0xE2, CHR 0x80, CHR 0x99] @
      ''s diabetes prevalence is **below** the Texas overall value (**11.0%**).'']"
  "category_part (columns sample) harris = []" "category_part (columns sample) bell = []"
  "pm25_part (columns sample) harris = []" "pm25_part (columns sample) bell = []"
  by (simp_all add: texas_diabetes_sample benchmark_part_def benchmark_sentence_def float_gt_def
      category_part_def pm25_part_def sample_columns format_11 [unfolded One_nat_def]
      harris_def bell_def blank_row_def)

lemma sample_has:
  "''Obesity'' \<in> set (columns sample)" "''Uninsured'' \<in> set (columns sample)"
  "''Median_Income'' \<in> set (columns sample)"
  by (simp_all add: sample_columns)

text \<open>
  C6. The three rules are tested one after the other, each on its own field: obesity at
  least 35, uninsured rate at least 15, median income at most 60000. A rule fires only if
  its column is in the row and its value is not missing. The drivers are the phrases of
  the rules that fire, in the order obesity, uninsured, income. When there is one at
  least, the explanation returned is the sentences before, the driver sentence and the
  note after, joined by spaces: the driver sentence lists the drivers joined by a comma
  and a space, it occurs in the returned text, and it is the only sentence of the
  explanation that starts as a driver sentence does. When no rule fires, the explanation
  returned is the other sentences alone (the fallback text when there are none) and none
  of them starts as a driver sentence does.
\<close>

theorem risk_explanation_driver_sentence:
  "let fired =
         (if ''Obesity'' \<in> set cols \<and> (\<exists>v. Obesity row = Some v \<and> 35 \<le> v)
          then [''higher obesity''] else []) @
         (if ''Uninsured'' \<in> set cols \<and> (\<exists>v. Uninsured row = Some v \<and> 15 \<le> v)
          then [''higher uninsured rate''] else []) @
         (if ''Median_Income'' \<in> set cols \<and> (\<exists>v. Median_Income row = Some v \<and> v \<le> 60000)
          then [''lower median income''] else []);
       sentence = ''Key drivers in this profile include '' @ join '', '' fired @ ''.'';
       before = benchmark_part td cols row @ category_part cols row;
       after = pm25_part cols row
   in drivers cols row = fired \<and>
      (fired \<noteq> [] \<longrightarrow>
         risk_explanation td cols row = join '' '' (before @ [sentence] @ after) \<and>
         sublist sentence (risk_explanation td cols row) \<and>
         filter (prefix ''Key drivers in this profile include '') (explanation_parts td cols row) =
           [sentence]) \<and>
      (fired = [] \<longrightarrow>
         risk_explanation td cols row =
           (if before @ after = [] then ''Ask about another county or explore the Rankings tab.''
            else join '' '' (before @ after)) \<and>
         filter (prefix ''Key drivers in this profile include '') (explanation_parts td cols row) = [])"
proof -
  define fired where "fired =
         (if ''Obesity'' \<in> set cols \<and> (\<exists>v. Obesity row = Some v \<and> 35 \<le> v)
          then [''higher obesity''] else []) @
         (if ''Uninsured'' \<in> set cols \<and> (\<exists>v. Uninsured row = Some v \<and> 15 \<le> v)
          then [''higher uninsured rate''] else []) @
         (if ''Median_Income'' \<in> set cols \<and> (\<exists>v. Median_Income row = Some v \<and> v \<le> 60000)
          then [''lower median income''] else [])"
  have fd: "drivers cols row = fired" by (simp only: drivers_fired fired_def)
  define sentence where "sentence = ''Key drivers in this profile include '' @ join '', '' fired @ ''.''"
  define before where "before = benchmark_part td cols row @ category_part cols row"
  define after where "after = pm25_part cols row"
  have parts: "explanation_parts td cols row = before @ (if fired = [] then [] else [sentence]) @ after"
    by (simp add: explanation_parts_def drivers_part_def fd sentence_def before_def after_def)
  have nb: "filter (prefix ''Key drivers in this profile include '') before = []"
    and na: "filter (prefix ''Key drivers in this profile include '') after = []"
    by (simp_all only: before_def after_def filter_append no_driver_sentence_elsewhere append_Nil)
  have ps: "prefix ''Key drivers in this profile include '' sentence"
    unfolding sentence_def by (rule prefixI) (rule refl)
  have 1: "fired \<noteq> [] \<longrightarrow>
      risk_explanation td cols row = join '' '' (before @ [sentence] @ after) \<and>
      sublist sentence (risk_explanation td cols row) \<and>
      filter (prefix ''Key drivers in this profile include '') (explanation_parts td cols row) =
        [sentence]"
  proof (intro conjI impI)
    assume f: "fired \<noteq> []"
    from f have p: "explanation_parts td cols row = before @ [sentence] @ after"
      by (simp add: parts)
    then show r: "risk_explanation td cols row = join '' '' (before @ [sentence] @ after)"
      by (simp add: risk_explanation_def)
    show "sublist sentence (risk_explanation td cols row)"
      unfolding r by (rule member_sublist_join) simp
    show "filter (prefix ''Key drivers in this profile include '') (explanation_parts td cols row) =
        [sentence]"
      unfolding p by (simp only: filter_append nb na filter.simps ps if_True append_Nil append_Nil2)
  qed
  have 2: "fired = [] \<longrightarrow>
      risk_explanation td cols row =
        (if before @ after = [] then ''Ask about another county or explore the Rankings tab.''
         else join '' '' (before @ after)) \<and>
      filter (prefix ''Key drivers in this profile include '') (explanation_parts td cols row) = []"
  proof (intro conjI impI)
    assume f: "fired = []"
    from f have p: "explanation_parts td cols row = before @ after"
      by (simp add: parts)
    then show "risk_explanation td cols row =
        (if before @ after = [] then ''Ask about another county or explore the Rankings tab.''
         else join '' '' (before @ after))"
      by (simp only: risk_explanation_def p) simp
    show "filter (prefix ''Key drivers in this profile include '') (explanation_parts td cols row) = []"
      unfolding p by (simp only: filter_append nb na append_Nil)
  qed
  from fd 1 2 show ?thesis
    unfolding Let_def fired_def [symmetric] sentence_def [symmetric] before_def [symmetric]
      after_def [symmetric]
    by (intro conjI)
qed

theorem risk_explanation_driver_sentence_witness:
  "drivers (columns sample) harris =
     [''higher obesity'', ''higher uninsured rate'', ''lower median income''] \<and>
   risk_explanation (texas_diabetes sample) (columns sample) harris =
     ''This county'' @ [CHR 0xE2, CHR 0x80, CHR 0x99] @
     ''s diabetes prevalence is **above** the Texas overall value (**11.0%**). Key drivers in this profile include higher obesity, higher uninsured rate, lower median income.'' \<and>
   drivers (columns sample) bell = [] \<and>
   risk_explanation (texas_diabetes sample) (columns sample) bell =
     ''This county'' @ [CHR 0xE2, CHR 0x80, CHR 0x99] @
     ''s diabetes prevalence is **below** the Texas overall value (**11.0%**).''"
proof -
  note h = risk_explanation_driver_sentence [of "columns sample" harris "texas_diabetes sample",
      unfolded Let_def]
  note b = risk_explanation_driver_sentence [of "columns sample" bell "texas_diabetes sample",
      unfolded Let_def]
  from h have 1: "drivers (columns sample) harris =
     [''higher obesity'', ''higher uninsured rate'', ''lower median income'']"
    by (simp add: sample_has drivers_harris)
  from h have 2: "risk_explanation (texas_diabetes sample) (columns sample) harris =
     ''This county'' @ [CHR 0xE2, CHR 0x80, CHR 0x99] @
     ''s diabetes prevalence is **above** the Texas overall value (**11.0%**). Key drivers in this profile include higher obesity, higher uninsured rate, lower median income.''"
    by (simp add: sample_has drivers_harris sample_parts)
  from b have 3: "drivers (columns sample) bell = []"
    by (simp add: sample_has drivers_bell)
  from b have 4: "risk_explanation (texas_diabetes sample) (columns sample) bell =
     ''This county'' @ [CHR 0xE2, CHR 0x80, CHR 0x99] @
     ''s diabetes prevalence is **below** the Texas overall value (**11.0%**).''"
    by (simp add: sample_has drivers_bell sample_parts)
  from 1 2 3 4 show ?thesis by (intro conjI)
qed

section \<open>The responder\<close>


lemma scan_none:
  "\<forall>n \<in> set names. \<not> sublist (lower n) msg \<Longrightarrow> scan repr d msg names = Inr not_found"
  by (induction names) simp_all












text \<open>
  C2. A county whose rank is blank in the file: the responder raises \<open>ValueError\<close>, from
  \<^verbatim>\<open>int\<close> on \<^verbatim>\<open>NaN\<close>, where the sidebar prints \<open>N/A\<close> for the same row.
\<close>

theorem chatbot_blank_rank_raises:
  "Risk_Rank bell = None \<and>
   chatbot repr sample ''What about Bell?'' = Inl ValueError \<and>
   risk_rank_metric (columns sample) bell = ''N/A''"
proof -
  have 1: "Risk_Rank bell = None" by (simp add: bell_def blank_row_def)
  have "map County (rows sample) = [''Harris'', ''Texas'', ''Bell'']"
    by (simp add: sample_rows sample_names)
  moreover have "filter (\<lambda>r. County r = ''Bell'') (rows sample) = [bell]"
    by (simp add: sample_rows sample_names)
  ultimately have 2: "chatbot repr sample ''What about Bell?'' = Inl ValueError"
    by (simp add: chatbot_def lower_def lower_char_def sublist_code(3) iloc0_def bind_def
        stats_response_def getitem_def sample_columns py_int_def 1)
  have 3: "risk_rank_metric (columns sample) bell = ''N/A''"
    by (simp add: risk_rank_metric_def sample_columns 1)
  from 1 2 3 show ?thesis by (intro conjI)
qed

section \<open>The derived percentile\<close>

lemma filter_less_eq_le:
  fixes x y :: rat
  assumes "y < x"
  shows "length (filter (\<lambda>z. z < y) vs) + length (filter (\<lambda>z. z = y) vs)
    \<le> length (filter (\<lambda>z. z < x) vs)"
  using assms by (induction vs) auto

lemma filter_less_eq_length:
  fixes y :: rat
  shows "length (filter (\<lambda>z. z < y) vs) + length (filter (\<lambda>z. z = y) vs) \<le> length vs"
  by (induction vs) auto

lemma filter_eq_pos:
  fixes y :: rat
  shows "y \<in> set vs \<Longrightarrow> 1 \<le> length (filter (\<lambda>z. z = y) vs)"
  by (induction vs) auto

lemma valid_iff: "v \<in> set (valid xs) \<longleftrightarrow> Some v \<in> set xs"
  by (induction xs) (auto simp: valid_def split: option.splits)

lemma rank_average_mono:
  assumes "y < x"
  shows "rank_average xs y \<le> rank_average xs x"
proof -
  define ly ey lx ex :: rat
    where "ly = of_nat (length (filter (\<lambda>z. z < y) (valid xs)))"
      and "ey = of_nat (length (filter (\<lambda>z. z = y) (valid xs)))"
      and "lx = of_nat (length (filter (\<lambda>z. z < x) (valid xs)))"
      and "ex = of_nat (length (filter (\<lambda>z. z = x) (valid xs)))"
  have "ly + ey \<le> lx"
    unfolding ly_def ey_def lx_def
    using filter_less_eq_le [OF assms, of "valid xs"]
    by (metis of_nat_add of_nat_le_iff)
  moreover have "0 \<le> ey" and "0 \<le> ex" by (simp_all add: ey_def ex_def)
  ultimately have "ly + (ey + 1) / 2 \<le> lx + (ex + 1) / 2" by (simp add: field_simps)
  then show ?thesis
    by (simp only: rank_average_def ly_def ey_def lx_def ex_def)
qed

lemma rank_average_bounds:
  assumes "Some v \<in> set xs"
  shows "1 \<le> rank_average xs v" and "rank_average xs v \<le> of_nat (length (valid xs))"
proof -
  define l e n :: rat
    where "l = of_nat (length (filter (\<lambda>z. z < v) (valid xs)))"
      and "e = of_nat (length (filter (\<lambda>z. z = v) (valid xs)))"
      and "n = of_nat (length (valid xs))"
  from assms have "v \<in> set (valid xs)" by (simp add: valid_iff)
  then have e: "1 \<le> e"
    unfolding e_def using filter_eq_pos [of v "valid xs"] by (metis of_nat_1 of_nat_le_iff)
  have l: "0 \<le> l" by (simp add: l_def)
  have n: "l + e \<le> n"
    unfolding l_def e_def n_def
    using filter_less_eq_length [of v "valid xs"] by (metis of_nat_add of_nat_le_iff)
  from e l have "1 \<le> l + (e + 1) / 2" by (simp add: field_simps)
  then show "1 \<le> rank_average xs v"
    by (simp only: rank_average_def l_def e_def)
  from e n have "l + (e + 1) / 2 \<le> n" by (simp add: field_simps)
  then show "rank_average xs v \<le> of_nat (length (valid xs))"
    by (simp only: rank_average_def l_def e_def n_def)
qed

lemma rank_pct_bounds:
  assumes "Some v \<in> set xs"
  shows "\<exists>p. rank_pct xs (Some v) = Some p \<and> 0 < p \<and> p \<le> 1"
proof -
  from assms have "v \<in> set (valid xs)" by (simp add: valid_iff)
  then have "valid xs \<noteq> []" by auto
  then have n: "(0::rat) < of_nat (length (valid xs))" by simp
  from rank_average_bounds [OF assms] n
  have "0 < rank_average xs v / of_nat (length (valid xs))"
    and "rank_average xs v / of_nat (length (valid xs)) \<le> 1"
    by (simp_all add: divide_le_eq)
  then show ?thesis by (simp add: rank_pct_def)
qed

lemma rank_pct_mono:
  assumes "y < x"
  shows "\<exists>p q. rank_pct xs (Some x) = Some p \<and> rank_pct xs (Some y) = Some q \<and> q \<le> p"
  using rank_average_mono [OF assms, of xs]
  by (simp add: rank_pct_def divide_right_mono)

lemma filter_key_distinct:
  assumes "distinct (map k xs)" and "x \<in> set xs"
  shows "filter (\<lambda>m. fst m = k x) (map (\<lambda>x. (k x, f x)) xs) = [(k x, f x)]"
  using assms
proof (induction xs)
  case Nil
  then show ?case by simp
next
  case (Cons a xs)
  show ?case
  proof (cases "x = a")
    case True
    from Cons.prems(1) have "\<forall>z \<in> set xs. k z \<noteq> k a" by (metis distinct.simps(2) image_eqI list.simps(9) set_map)
    then have "filter (\<lambda>m. fst m = k a) (map (\<lambda>x. (k x, f x)) xs) = []"
      by (auto simp: filter_empty_conv)
    with True show ?thesis by simp
  next
    case False
    with Cons.prems have "x \<in> set xs" and "k a \<noteq> k x" and "distinct (map k xs)" by auto
    with Cons.IH show ?thesis by simp
  qed
qed

lemma filter_key_none:
  "key \<notin> k ` set xs \<Longrightarrow> filter (\<lambda>m. fst m = key) (map (\<lambda>x. (k x, f x)) xs) = []"
  by (auto simp: filter_empty_conv)

lemma ranked_keys: "fst ` set (ranked d) = County ` set (tmp_counties d)"
  by (force simp: ranked_def)

lemma tmp_counties_iff: "r \<in> set (tmp_counties d) \<longleftrightarrow> r \<in> set (rows d) \<and> lower (County r) \<noteq> ''texas''"
  by (simp add: tmp_counties_def)

lemma ranked_value:
  assumes "(c, p) \<in> set (ranked d)"
  shows "p = None \<or> (\<exists>q. p = Some q \<and> 0 < q \<and> q \<le> 100)"
proof -
  from assms obtain r where r: "r \<in> set (tmp_counties d)"
    and p: "p = map_option (\<lambda>p. p * 100) (rank_pct (map Risk_Score (tmp_counties d)) (Risk_Score r))"
    by (auto simp: ranked_def)
  show ?thesis
  proof (cases "Risk_Score r")
    case None
    with p show ?thesis by (simp add: rank_pct_def)
  next
    case (Some v)
    with r have "Some v \<in> set (map Risk_Score (tmp_counties d))" by force
    from rank_pct_bounds [OF this] obtain q
      where "rank_pct (map Risk_Score (tmp_counties d)) (Some v) = Some q" "0 < q" "q \<le> 1"
      by blast
    with p Some show ?thesis by simp
  qed
qed

lemma merge_left_member:
  assumes "r' \<in> set (merge_left left right)"
  shows "\<exists>r \<in> set left.
    (County r \<notin> fst ` set right \<and> r' = r\<lparr>Risk_Percentile := None\<rparr>) \<or>
    (\<exists>p. (County r, p) \<in> set right \<and> r' = r\<lparr>Risk_Percentile := p\<rparr>)"
proof -
  from assms obtain r where r: "r \<in> set left"
    and m: "r' \<in> set (case filter (\<lambda>m. fst m = County r) right of
          [] \<Rightarrow> [r\<lparr>Risk_Percentile := None\<rparr>]
        | ms \<Rightarrow> map (\<lambda>m. r\<lparr>Risk_Percentile := snd m\<rparr>) ms)"
    by (auto simp: merge_left_def)
  show ?thesis
  proof (cases "filter (\<lambda>m. fst m = County r) right")
    case Nil
    then have "County r \<notin> fst ` set right" by (auto simp: filter_empty_conv)
    with m Nil r show ?thesis by auto
  next
    case (Cons a ms)
    from m have "r' \<in> set (map (\<lambda>m. r\<lparr>Risk_Percentile := snd m\<rparr>) (a # ms))"
      by (simp only: Cons list.case)
    then have "r' \<in> (\<lambda>m. r\<lparr>Risk_Percentile := snd m\<rparr>) ` set (a # ms)"
      by (simp only: set_map)
    then obtain e where "e \<in> set (a # ms)" and "r' = r\<lparr>Risk_Percentile := snd e\<rparr>"
      by (rule imageE)
    from this(1) have "e \<in> set (filter (\<lambda>m. fst m = County r) right)"
      by (simp only: Cons)
    then have "e \<in> set right \<and> fst e = County r"
      by (simp only: set_filter mem_Collect_eq)
    then have "(County r, snd e) \<in> set right" by (metis prod.collapse)
    with \<open>r' = r\<lparr>Risk_Percentile := snd e\<rparr>\<close> r show ?thesis by blast
  qed
qed

lemma rows_derive_percentile:
  assumes "''Risk_Percentile'' \<notin> set (columns d)" and "''Risk_Score'' \<in> set (columns d)"
  shows "rows (derive_percentile d) = merge_left (rows d) (ranked d)"
    and "columns (derive_percentile d) = columns d @ [''Risk_Percentile'']"
  using assms by (simp_all add: derive_percentile_def)

lemma derive_percentile_member:
  assumes "''Risk_Percentile'' \<notin> set (columns d)" and "''Risk_Score'' \<in> set (columns d)"
    and "r' \<in> set (rows (derive_percentile d))"
  shows "\<exists>r \<in> set (rows d). County r' = County r \<and> Risk_Score r' = Risk_Score r \<and>
    (Risk_Percentile r' = None \<or>
     (lower (County r) \<noteq> ''texas'' \<and> (\<exists>q. Risk_Percentile r' = Some q \<and> 0 < q \<and> q \<le> 100)))"
proof -
  from assms(3) have "r' \<in> set (merge_left (rows d) (ranked d))"
    by (simp only: rows_derive_percentile(1) [OF assms(1,2)])
  from merge_left_member [OF this] obtain r where r: "r \<in> set (rows d)"
    and c: "(County r \<notin> fst ` set (ranked d) \<and> r' = r\<lparr>Risk_Percentile := None\<rparr>) \<or>
      (\<exists>p. (County r, p) \<in> set (ranked d) \<and> r' = r\<lparr>Risk_Percentile := p\<rparr>)"
    by blast
  from c show ?thesis
  proof
    assume "County r \<notin> fst ` set (ranked d) \<and> r' = r\<lparr>Risk_Percentile := None\<rparr>"
    then have "County r' = County r" "Risk_Score r' = Risk_Score r" "Risk_Percentile r' = None"
      by simp_all
    with r show ?thesis by blast
  next
    assume "\<exists>p. (County r, p) \<in> set (ranked d) \<and> r' = r\<lparr>Risk_Percentile := p\<rparr>"
    then obtain p where p: "(County r, p) \<in> set (ranked d)" and e: "r' = r\<lparr>Risk_Percentile := p\<rparr>"
      by blast
    from p have "County r \<in> fst ` set (ranked d)" by force
    then obtain r0 where "r0 \<in> set (tmp_counties d)" "County r0 = County r"
      unfolding ranked_keys by force
    then have t: "lower (County r) \<noteq> ''texas''"
      by (metis tmp_counties_iff)
    from e have 1: "County r' = County r" "Risk_Score r' = Risk_Score r" "Risk_Percentile r' = p"
      by simp_all
    from ranked_value [OF p] 1(3) t
    have "Risk_Percentile r' = None \<or>
      (lower (County r) \<noteq> ''texas'' \<and> (\<exists>q. Risk_Percentile r' = Some q \<and> 0 < q \<and> q \<le> 100))"
      by (metis (no_types))
    with r 1 show ?thesis by blast
  qed
qed

lemma derive_percentile_distinct:
  assumes "''Risk_Percentile'' \<notin> set (columns d)" and "''Risk_Score'' \<in> set (columns d)"
    and "distinct (map County (rows d))"
  shows "rows (derive_percentile d) =
    map (\<lambda>r. r\<lparr>Risk_Percentile :=
           (if lower (County r) \<noteq> ''texas''
            then map_option (\<lambda>p. p * 100) (rank_pct (map Risk_Score (tmp_counties d)) (Risk_Score r))
            else None)\<rparr>) (rows d)"
proof -
  define f where "f = (\<lambda>r :: county_row.
    map_option (\<lambda>p. p * 100) (rank_pct (map Risk_Score (tmp_counties d)) (Risk_Score r)))"
  have rk: "ranked d = map (\<lambda>r. (County r, f r)) (tmp_counties d)"
    by (simp add: ranked_def f_def)
  have dt: "distinct (map County (tmp_counties d))"
    unfolding tmp_counties_def using assms(3) by (rule distinct_map_filter)
  have one: "(case filter (\<lambda>m. fst m = County r) (ranked d) of
          [] \<Rightarrow> [r\<lparr>Risk_Percentile := None\<rparr>]
        | ms \<Rightarrow> map (\<lambda>m. r\<lparr>Risk_Percentile := snd m\<rparr>) ms) =
      [r\<lparr>Risk_Percentile := (if lower (County r) \<noteq> ''texas'' then f r else None)\<rparr>]"
    if r: "r \<in> set (rows d)" for r
  proof (cases "lower (County r) \<noteq> ''texas''")
    case True
    with r have "r \<in> set (tmp_counties d)" by (simp only: tmp_counties_iff simp_thms)
    from filter_key_distinct [OF dt this, of f]
    have "filter (\<lambda>m. fst m = County r) (ranked d) = [(County r, f r)]"
      by (simp only: rk)
    with True show ?thesis by simp
  next
    case False
    have "County r \<notin> County ` set (tmp_counties d)"
    proof
      assume "County r \<in> County ` set (tmp_counties d)"
      then obtain r0 where "r0 \<in> set (tmp_counties d)" "County r0 = County r" by force
      with False show False by (metis tmp_counties_iff)
    qed
    from filter_key_none [OF this, of f]
    have "filter (\<lambda>m. fst m = County r) (ranked d) = []"
      by (simp only: rk)
    with False show ?thesis by simp
  qed
  have "merge_left (rows d) (ranked d) =
      concat (map (\<lambda>r. [r\<lparr>Risk_Percentile := (if lower (County r) \<noteq> ''texas'' then f r else None)\<rparr>])
        (rows d))"
    unfolding merge_left_def
    by (rule arg_cong [where f = concat], rule map_cong [OF refl], rule one)
  also have "\<dots> = map (\<lambda>r. r\<lparr>Risk_Percentile := (if lower (County r) \<noteq> ''texas'' then f r else None)\<rparr>)
      (rows d)"
    by (induction "rows d") simp_all
  finally show ?thesis
    by (simp only: rows_derive_percentile(1) [OF assms(1,2)] f_def)
qed

lemma scored_conditions:
  "''Risk_Percentile'' \<notin> set (columns scored)" "''Risk_Score'' \<in> set (columns scored)"
  "''Risk_Category'' \<notin> set (columns scored)" "distinct (map County (rows scored))"
  by (simp_all add: scored_def blank_row_def)

lemma scored_percentiles:
  "rows (derive_percentile scored) =
     [blank_row\<lparr>County := ''Texas'', Risk_Score := Some 99\<rparr>,
      blank_row\<lparr>County := ''Harris'', Risk_Score := Some 80, Risk_Percentile := Some 100\<rparr>,
      blank_row\<lparr>County := ''Bell'', Risk_Score := Some 20, Risk_Percentile := Some 50\<rparr>,
      blank_row\<lparr>County := ''Travis'', Risk_Score := Some 20, Risk_Percentile := Some 50\<rparr>,
      blank_row\<lparr>County := ''Bexar''\<rparr>]"
  by (simp add: derive_percentile_def merge_left_def ranked_def tmp_counties_def rank_pct_def
      rank_average_def valid_def scored_def blank_row_def lower_def lower_char_def)

text \<open>
  C5, as the program has it. When the percentile is derived from the score and the county
  names are unique, two
  rows other than the statewide ones that have scores get percentiles; the row with the
  greater score gets a percentile that is not smaller, rows with equal scores get the same
  percentile, and the percentile is the rank among the scores of the rows other than the
  statewide ones, so that a statewide score does not count.
\<close>

theorem percentile_rank_monotone:
  assumes "''Risk_Percentile'' \<notin> set (columns d)" and "''Risk_Score'' \<in> set (columns d)"
    and "distinct (map County (rows d))"
    and "a \<in> set (rows (derive_percentile d))" and "b \<in> set (rows (derive_percentile d))"
    and "lower (County a) \<noteq> ''texas''" and "lower (County b) \<noteq> ''texas''"
    and "Risk_Score a = Some x" and "Risk_Score b = Some y"
  shows "\<exists>p q. Risk_Percentile a = Some p \<and> Risk_Percentile b = Some q \<and>
      (y < x \<longrightarrow> q \<le> p) \<and> (x = y \<longrightarrow> p = q) \<and>
      Some p = map_option (\<lambda>p. p * 100)
        (rank_pct (map Risk_Score (filter (\<lambda>r. lower (County r) \<noteq> ''texas'') (rows d))) (Some x))"
proof -
  define scores where "scores = map Risk_Score (tmp_counties d)"
  define g where "g = (\<lambda>r :: county_row. r\<lparr>Risk_Percentile :=
           (if lower (County r) \<noteq> ''texas''
            then map_option (\<lambda>p. p * 100) (rank_pct scores (Risk_Score r))
            else None)\<rparr>)"
  have rows: "rows (derive_percentile d) = map g (rows d)"
    unfolding g_def scores_def by (rule derive_percentile_distinct [OF assms(1-3)])
  have pct: "Risk_Percentile r = map_option (\<lambda>p. p * 100) (rank_pct scores (Some v))"
    if "r \<in> set (rows (derive_percentile d))" "lower (County r) \<noteq> ''texas''"
      "Risk_Score r = Some v" for r v
  proof -
    from that(1) obtain r0 where "r = g r0" unfolding rows by auto
    with that(2,3) show ?thesis by (simp add: g_def)
  qed
  have pa: "Risk_Percentile a = map_option (\<lambda>p. p * 100) (rank_pct scores (Some x))"
    using assms(4,6,8) by (rule pct)
  have pb: "Risk_Percentile b = map_option (\<lambda>p. p * 100) (rank_pct scores (Some y))"
    using assms(5,7,9) by (rule pct)
  obtain p where p: "rank_pct scores (Some x) = Some p" by (simp add: rank_pct_def)
  obtain q where q: "rank_pct scores (Some y) = Some q" by (simp add: rank_pct_def)
  have m: "q \<le> p" if "y < x"
    using rank_pct_mono [OF that, of scores] p q by simp
  have e: "p = q" if "x = y" using that p q by simp
  have s: "scores = map Risk_Score (filter (\<lambda>r. lower (County r) \<noteq> ''texas'') (rows d))"
    by (simp only: scores_def tmp_counties_def)
  have "Risk_Percentile a = Some (p * 100)" "Risk_Percentile b = Some (q * 100)"
    "y < x \<longrightarrow> q * 100 \<le> p * 100" "x = y \<longrightarrow> p * 100 = q * 100"
    "Some (p * 100) = map_option (\<lambda>p. p * 100)
        (rank_pct (map Risk_Score (filter (\<lambda>r. lower (County r) \<noteq> ''texas'') (rows d))) (Some x))"
    using pa pb p q m e by (simp_all add: s [symmetric])
  then show ?thesis by blast
qed

theorem percentile_rank_monotone_witness:
  "map Risk_Score (rows (derive_percentile scored)) = [Some 99, Some 80, Some 20, Some 20, None] \<and>
   map Risk_Percentile (rows (derive_percentile scored)) = [None, Some 100, Some 50, Some 50, None] \<and>
   (50::rat) \<le> 100"
proof -
  define a where "a = blank_row\<lparr>County := ''Harris'', Risk_Score := Some 80, Risk_Percentile := Some 100\<rparr>"
  define b where "b = blank_row\<lparr>County := ''Bell'', Risk_Score := Some 20, Risk_Percentile := Some 50\<rparr>"
  have 1: "a \<in> set (rows (derive_percentile scored))" and 2: "b \<in> set (rows (derive_percentile scored))"
    unfolding scored_percentiles a_def b_def by simp_all
  have 3: "lower (County a) \<noteq> ''texas''" and 4: "lower (County b) \<noteq> ''texas''"
    by (simp_all add: a_def b_def blank_row_def lower_def lower_char_def)
  have 5: "Risk_Score a = Some 80" and 6: "Risk_Score b = Some 20"
    by (simp_all add: a_def b_def)
  from percentile_rank_monotone [OF scored_conditions(1,2,4) 1 2 3 4 5 6]
  obtain p q where "Risk_Percentile a = Some p" "Risk_Percentile b = Some q" "(20::rat) < 80 \<longrightarrow> q \<le> p"
    by blast
  moreover have "Risk_Percentile a = Some 100" "Risk_Percentile b = Some 50"
    by (simp_all add: a_def b_def)
  ultimately have 7: "(50::rat) \<le> 100" by simp
  have 8: "map Risk_Score (rows (derive_percentile scored)) = [Some 99, Some 80, Some 20, Some 20, None]"
    and 9: "map Risk_Percentile (rows (derive_percentile scored)) = [None, Some 100, Some 50, Some 50, None]"
    unfolding scored_percentiles by (simp_all add: blank_row_def)
  from 8 9 7 show ?thesis by (intro conjI)
qed

text \<open>
  A name that two rows carry: the merge by name pairs each of the two rows with both
  percentiles of the name, so that a row with the score 90 carries the percentile
  \<open>100 / 3\<close>, below the \<open>200 / 3\<close> of the row with the score 50.
\<close>

theorem repeated_name_breaks_monotony:
  "map (\<lambda>r. (County r, Risk_Score r, Risk_Percentile r)) (rows (derive_percentile repeated)) =
     [(''Bell'', Some 10, Some (100 / 3)), (''Bell'', Some 10, Some 100),
      (''Bell'', Some 90, Some (100 / 3)), (''Bell'', Some 90, Some 100),
      (''Harris'', Some 50, Some (200 / 3))] \<and>
   (50 :: rat) < 90 \<and> (100 / 3 :: rat) < 200 / 3"
proof -
  have "map (\<lambda>r. (County r, Risk_Score r, Risk_Percentile r)) (rows (derive_percentile repeated)) =
     [(''Bell'', Some 10, Some (100 / 3)), (''Bell'', Some 10, Some 100),
      (''Bell'', Some 90, Some (100 / 3)), (''Bell'', Some 90, Some 100),
      (''Harris'', Some 50, Some (200 / 3))]"
    by (simp add: derive_percentile_def merge_left_def ranked_def tmp_counties_def rank_pct_def
      rank_average_def valid_def repeated_def blank_row_def lower_def lower_char_def)
  moreover have "(50 :: rat) < 90" "(100 / 3 :: rat) < 200 / 3" by simp_all
  ultimately show ?thesis by (intro conjI)
qed

lemma scored_categories:
  "rows (derive_category (derive_percentile scored)) =
     [blank_row\<lparr>County := ''Texas'', Risk_Score := Some 99\<rparr>,
      blank_row\<lparr>County := ''Harris'', Risk_Score := Some 80, Risk_Percentile := Some 100,
        Risk_Category := Some ''High''\<rparr>,
      blank_row\<lparr>County := ''Bell'', Risk_Score := Some 20, Risk_Percentile := Some 50,
        Risk_Category := Some ''Moderate''\<rparr>,
      blank_row\<lparr>County := ''Travis'', Risk_Score := Some 20, Risk_Percentile := Some 50,
        Risk_Category := Some ''Moderate''\<rparr>,
      blank_row\<lparr>County := ''Bexar''\<rparr>]"
proof -
  have "columns (derive_percentile scored) = [''County'', ''Risk_Score'', ''Risk_Percentile'']"
    by (simp add: derive_percentile_def scored_def)
  then show ?thesis
    by (simp add: derive_category_def scored_percentiles risk_category_cases blank_row_def)
qed

text \<open>
  C10, as the program has it. After the percentile and the category are derived from the
  score, a statewide row has a missing percentile and a missing category; the percentile
  of any other row is either missing or in \<open>(0, 100]\<close>, never 0; and with unique county
  names it is in \<open>(0, 100]\<close> whenever the row has a score. A row without a score has a
  missing percentile.
\<close>

theorem derived_percentile_range:
  assumes "''Risk_Percentile'' \<notin> set (columns d)" and "''Risk_Score'' \<in> set (columns d)"
    and "''Risk_Category'' \<notin> set (columns d)"
    and "r \<in> set (rows (derive_category (derive_percentile d)))"
  shows "(lower (County r) = ''texas'' \<longrightarrow> Risk_Percentile r = None \<and> Risk_Category r = None) \<and>
    (Risk_Percentile r = None \<or> (\<exists>p. Risk_Percentile r = Some p \<and> 0 < p \<and> p \<le> 100)) \<and>
    (lower (County r) \<noteq> ''texas'' \<and> distinct (map County (rows d)) \<and> Risk_Score r \<noteq> None \<longrightarrow>
       (\<exists>p. Risk_Percentile r = Some p \<and> 0 < p \<and> p \<le> 100)) \<and>
    (distinct (map County (rows d)) \<and> Risk_Score r = None \<longrightarrow> Risk_Percentile r = None)"
proof -
  have cols: "''Risk_Category'' \<notin> set (columns (derive_percentile d))"
    "''Risk_Percentile'' \<in> set (columns (derive_percentile d))"
    using assms(3) by (simp_all add: rows_derive_percentile(2) [OF assms(1,2)])
  then have "rows (derive_category (derive_percentile d)) =
      map (\<lambda>r. r\<lparr>Risk_Category := risk_category (Risk_Percentile r)\<rparr>) (rows (derive_percentile d))"
    by (simp add: derive_category_def)
  with assms(4) obtain r' where r': "r' \<in> set (rows (derive_percentile d))"
    and r: "r = r'\<lparr>Risk_Category := risk_category (Risk_Percentile r')\<rparr>"
    by auto
  from r have same: "County r = County r'" "Risk_Percentile r = Risk_Percentile r'"
    "Risk_Score r = Risk_Score r'" "Risk_Category r = risk_category (Risk_Percentile r')"
    by simp_all
  from derive_percentile_member [OF assms(1,2) r'] obtain r0 where r0: "r0 \<in> set (rows d)"
    "County r' = County r0" "Risk_Score r' = Risk_Score r0"
    and range: "Risk_Percentile r' = None \<or>
      (lower (County r0) \<noteq> ''texas'' \<and> (\<exists>q. Risk_Percentile r' = Some q \<and> 0 < q \<and> q \<le> 100))"
    by blast
  have 1: "Risk_Percentile r = None \<and> Risk_Category r = None" if "lower (County r) = ''texas''"
  proof -
    from that range same(1) r0(2) have "Risk_Percentile r' = None" by metis
    then show ?thesis by (simp add: same risk_category_None)
  qed
  have 2: "Risk_Percentile r = None \<or> (\<exists>p. Risk_Percentile r = Some p \<and> 0 < p \<and> p \<le> 100)"
    using range by (metis same(2))
  have 3: "\<exists>p. Risk_Percentile r = Some p \<and> 0 < p \<and> p \<le> 100"
    if t: "lower (County r) \<noteq> ''texas''" and dist: "distinct (map County (rows d))"
      and sc: "Risk_Score r \<noteq> None"
  proof -
    from sc obtain v where v: "Risk_Score r' = Some v" by (auto simp: same)
    from r' obtain r1 where r1: "r1 \<in> set (rows d)" and e: "r' = r1\<lparr>Risk_Percentile :=
           (if lower (County r1) \<noteq> ''texas''
            then map_option (\<lambda>p. p * 100) (rank_pct (map Risk_Score (tmp_counties d)) (Risk_Score r1))
            else None)\<rparr>"
      unfolding derive_percentile_distinct [OF assms(1,2) dist] by auto
    from e have c1: "County r1 = County r'" and s1: "Risk_Score r1 = Risk_Score r'" by simp_all
    with t have t1: "lower (County r1) \<noteq> ''texas''" by (simp add: same)
    with r1 have "r1 \<in> set (tmp_counties d)" by (simp only: tmp_counties_iff simp_thms)
    with s1 v have "Some v \<in> set (map Risk_Score (tmp_counties d))" by force
    from rank_pct_bounds [OF this] obtain q
      where "rank_pct (map Risk_Score (tmp_counties d)) (Some v) = Some q" "0 < q" "q \<le> 1"
      by blast
    with e t1 s1 v have "Risk_Percentile r' = Some (q * 100)" "0 < q * 100" "q * 100 \<le> 100"
      by simp_all
    then show ?thesis by (simp add: same)
  qed
  have 4: "Risk_Percentile r = None"
    if dist: "distinct (map County (rows d))" and sc: "Risk_Score r = None"
  proof -
    from r' obtain r1 where e: "r' = r1\<lparr>Risk_Percentile :=
           (if lower (County r1) \<noteq> ''texas''
            then map_option (\<lambda>p. p * 100) (rank_pct (map Risk_Score (tmp_counties d)) (Risk_Score r1))
            else None)\<rparr>"
      unfolding derive_percentile_distinct [OF assms(1,2) dist] by auto
    from e have "Risk_Score r1 = Risk_Score r'" by simp
    with sc have "Risk_Score r1 = None" by (simp add: same)
    with e have "Risk_Percentile r' = None" by (simp add: rank_pct_def)
    then show ?thesis by (simp add: same)
  qed
  from 1 2 3 4 show ?thesis by blast
qed

theorem derived_percentile_range_witness:
  "map County (rows (derive_category (derive_percentile scored))) =
     [''Texas'', ''Harris'', ''Bell'', ''Travis'', ''Bexar''] \<and>
   map Risk_Percentile (rows (derive_category (derive_percentile scored))) =
     [None, Some 100, Some 50, Some 50, None] \<and>
   map Risk_Category (rows (derive_category (derive_percentile scored))) =
     [None, Some ''High'', Some ''Moderate'', Some ''Moderate'', None] \<and>
   (0::rat) < 100 \<and> (100::rat) \<le> 100"
proof -
  define r where "r = blank_row\<lparr>County := ''Harris'', Risk_Score := Some 80,
    Risk_Percentile := Some 100, Risk_Category := Some ''High''\<rparr>"
  have 1: "r \<in> set (rows (derive_category (derive_percentile scored)))"
    unfolding scored_categories r_def by simp
  have 2: "lower (County r) \<noteq> ''texas'' \<and> distinct (map County (rows scored)) \<and> Risk_Score r \<noteq> None"
    by (simp add: r_def blank_row_def lower_def lower_char_def scored_conditions)
  from derived_percentile_range [OF scored_conditions(1,2,3) 1] 2
  obtain p where "Risk_Percentile r = Some p" "0 < p" "p \<le> 100" by blast
  moreover have "Risk_Percentile r = Some 100" by (simp add: r_def)
  ultimately have 3: "(0::rat) < 100 \<and> (100::rat) \<le> 100" by simp
  have 4: "map County (rows (derive_category (derive_percentile scored))) =
     [''Texas'', ''Harris'', ''Bell'', ''Travis'', ''Bexar'']"
    and 5: "map Risk_Percentile (rows (derive_category (derive_percentile scored))) =
     [None, Some 100, Some 50, Some 50, None]"
    and 6: "map Risk_Category (rows (derive_category (derive_percentile scored))) =
     [None, Some ''High'', Some ''Moderate'', Some ''Moderate'', None]"
    unfolding scored_categories by (simp_all add: blank_row_def)
  from 4 5 6 3 show ?thesis by (intro conjI) (elim conjE, assumption)+
qed

text \<open>A county with a blank score: its derived percentile is missing, not in \<open>(0, 100]\<close>.\<close>

theorem blank_score_has_no_percentile:
  "County (rows (derive_category (derive_percentile scored)) ! 4) = ''Bexar'' \<and>
   lower ''Bexar'' \<noteq> ''texas'' \<and>
   Risk_Score (rows (derive_category (derive_percentile scored)) ! 4) = None \<and>
   Risk_Percentile (rows (derive_category (derive_percentile scored)) ! 4) = None"
  unfolding scored_categories
  by (simp add: blank_row_def lower_def lower_char_def)

section \<open>The county list and the derived table\<close>

text \<open>
  The program computes the county list before it derives the percentile and the category.
  The derivation changes no name and loses none, so the list is also the list of the
  table that the helpers read.
\<close>

lemma counties_cong:
  assumes "County ` set (rows d) = County ` set (rows d')"
  shows "counties d = counties d'"
proof (rule sorted_distinct_set_unique)
  show "sorted (counties d)" "sorted (counties d')" by (rule sorted_counties)+
  show "distinct (counties d)" "distinct (counties d')" by (rule distinct_counties)+
  show "set (counties d) = set (counties d')" by (simp only: set_counties assms)
qed

lemma merge_left_keeps:
  assumes "r \<in> set left"
  shows "\<exists>p. r\<lparr>Risk_Percentile := p\<rparr> \<in> set (merge_left left right)"
proof (cases "filter (\<lambda>m. fst m = County r) right")
  case Nil
  have "r\<lparr>Risk_Percentile := None\<rparr> \<in> set (merge_left left right)"
    unfolding merge_left_def set_concat set_map
    by (rule UN_I [OF imageI [OF assms]]) (simp add: Nil)
  then show ?thesis ..
next
  case (Cons a ms)
  have "r\<lparr>Risk_Percentile := snd a\<rparr> \<in> set (merge_left left right)"
    unfolding merge_left_def set_concat set_map
    by (rule UN_I [OF imageI [OF assms]]) (simp add: Cons)
  then show ?thesis ..
qed

lemma County_merge_left: "County ` set (merge_left left right) = County ` set left"
proof (intro equalityI subsetI)
  fix c assume "c \<in> County ` set (merge_left left right)"
  then obtain r' where m: "r' \<in> set (merge_left left right)" and c: "c = County r'"
    by (rule imageE)
  from merge_left_member [OF m] obtain r where r: "r \<in> set left"
    and d: "(County r \<notin> fst ` set right \<and> r' = r\<lparr>Risk_Percentile := None\<rparr>) \<or>
      (\<exists>p. (County r, p) \<in> set right \<and> r' = r\<lparr>Risk_Percentile := p\<rparr>)"
    by (rule bexE)
  from d have "\<exists>p. r' = r\<lparr>Risk_Percentile := p\<rparr>" by (elim disjE conjE exE) (rule exI, assumption)+
  then obtain p where "r' = r\<lparr>Risk_Percentile := p\<rparr>" ..
  then have "County r' = County r" by simp
  with c r show "c \<in> County ` set left" by (simp only: imageI)
next
  fix c assume "c \<in> County ` set left"
  then obtain r where r: "r \<in> set left" and c: "c = County r" by (rule imageE)
  from merge_left_keeps [OF r] obtain p
    where p: "r\<lparr>Risk_Percentile := p\<rparr> \<in> set (merge_left left right)" ..
  have "County (r\<lparr>Risk_Percentile := p\<rparr>) = c" by (simp add: c)
  with p show "c \<in> County ` set (merge_left left right)" by (metis imageI)
qed

lemma County_derive_percentile: "County ` set (rows (derive_percentile d)) = County ` set (rows d)"
  by (simp add: derive_percentile_def County_merge_left)

lemma County_derive_category: "County ` set (rows (derive_category d)) = County ` set (rows d)"
  by (simp add: derive_category_def image_image)

lemma counties_load: "counties (load raw) = counties (strip_county raw)"
  by (rule counties_cong)
    (simp only: load_def County_derive_category County_derive_percentile)

end
